theory Spec2Isabelle
  imports Complex_Main
begin

section \<open>The Quantum ESPRESSO (CMake) easyblock\<close>

text \<open>
  A shallow embedding of \<^verbatim>\<open>easybuild/easyblocks/q/quantumespressocmake.py\<close>: the
  configure hook (the option resolver), the test hook (the test outcome evaluator) and the
  sanity check hook (the artifact set deriver) of the class
  \<^verbatim>\<open>EB_QuantumESPRESSOcmake\<close>.

  Python strings are modelled as \<^typ>\<open>string\<close>, one \<^typ>\<open>char\<close> per code point
  (code points below 256). Python's unbounded integers are \<^typ>\<open>int\<close> or \<^typ>\<open>nat\<close>.
  Calls to the logger have no effect on any result and are left out.
\<close>

subsection \<open>Data\<close>

text \<open>
  Every exception of the file is an \<^verbatim>\<open>EasyBuildError\<close> with a message. The two
  messages of the test hook that are formatted from measured values keep the values
  (\<^verbatim>\<open>thr\<close> and \<^verbatim>\<open>perc\<close>; \<^verbatim>\<open>num_fail_thr\<close> and \<^verbatim>\<open>num_fail\<close>)
  rather than the formatted text. \<^verbatim>\<open>ZeroDivisionError\<close> is Python's own, from
  \<^verbatim>\<open>//\<close>.
\<close>

datatype error =
    EasyBuildError string
  | RateBelowThreshold rat rat
  | TooManyFailures int nat
  | ZeroDivisionError

text \<open>
  Modelled from the spec: \<^verbatim>\<open>LooseVersion\<close> of \<^verbatim>\<open>easybuild.tools\<close> is not in
  the source. The spec has a version token "compared with segment-wise numeric ordering,
  never lexical string ordering": a version is the list of its numeric segments
  (\<^verbatim>\<open>'7.3.1'\<close> is \<open>[7, 3, 1]\<close>), compared as Python compares lists.
\<close>

type_synonym loose_version = "nat list"

fun lv_less :: "loose_version \<Rightarrow> loose_version \<Rightarrow> bool" where
  "lv_less [] [] = False"
| "lv_less [] (y # ys) = True"
| "lv_less (x # xs) [] = False"
| "lv_less (x # xs) (y # ys) = (if x = y then lv_less xs ys else x < y)"

text \<open>\<^verbatim>\<open>toolchain.INTELCOMP\<close> and the other compiler families of the framework.\<close>

datatype comp_family = INTELCOMP | OtherComp string

text \<open>The custom easyconfig parameters of \<^verbatim>\<open>extra_options\<close> and the framework's
  parameters that the hooks read (\<^verbatim>\<open>self.cfg.get\<close>).\<close>

record easyconfig =
  with_cuda :: bool
  with_scalapack :: bool
  with_fox :: bool
  with_gipaw :: bool
  with_d3q :: bool
  with_qmcpack :: bool
  test_suite_nprocs :: int
  test_suite_allow_failures :: "string list"
  test_suite_threshold :: rat
  test_suite_max_failed :: int
  build_shared_libs :: bool
  parallel :: int
  buildopts :: string

text \<open>The read-only part of \<^verbatim>\<open>self\<close>: version, easyconfig, toolchain options
  (\<^verbatim>\<open>self.toolchain.options.get\<close>) and compiler family.\<close>

record easyblock =
  version :: loose_version
  cfg :: easyconfig
  usempi :: bool
  openmp :: bool
  comp_fam :: comp_family

text \<open>
  The part of the world the hooks change: the \<^verbatim>\<open>configopts\<close> parameter,
  \<^verbatim>\<open>self.check_bins\<close> and the \<^verbatim>\<open>LDFLAGS\<close> entry of \<^verbatim>\<open>os.environ\<close>.

  Modelled from the spec: \<^verbatim>\<open>self.cfg.update\<close> is the framework's and not in the
  source. The spec has the build argument list as an "ordered, append-only sequence of
  argument strings; no deduplication": \<open>configopts\<close> is the list of the arguments,
  and an update appends one.
\<close>

record build_state =
  configopts :: "string list"
  check_bins :: "string list"
  ldflags :: "string option"

text \<open>A step runs on a state and returns a value or raises; the state it leaves is
  returned in both cases, as a Python exception leaves the object as it is.\<close>

type_synonym 'a step = "build_state \<Rightarrow> (error + 'a) \<times> build_state"

definition ret :: "'a \<Rightarrow> 'a step" where
  "ret x s = (Inr x, s)"

definition raise :: "error \<Rightarrow> 'a step" where
  "raise e s = (Inl e, s)"

definition bind :: "'a step \<Rightarrow> ('a \<Rightarrow> 'b step) \<Rightarrow> 'b step" where
  "bind m f s = (case m s of (Inl e, s') \<Rightarrow> (Inl e, s') | (Inr x, s') \<Rightarrow> f x s')"

definition seq :: "unit step \<Rightarrow> 'a step \<Rightarrow> 'a step" where
  "seq m n = bind m (\<lambda>_. n)"

definition cfg_update_configopts :: "string \<Rightarrow> unit step" where
  "cfg_update_configopts arg s = (Inr (), s\<lparr>configopts := configopts s @ [arg]\<rparr>)"

definition check_bins_extend :: "string list \<Rightarrow> unit step" where
  "check_bins_extend xs s = (Inr (), s\<lparr>check_bins := check_bins s @ xs\<rparr>)"

text \<open>\<^verbatim>\<open>get_software_root(name)\<close> is the root directory of a loaded dependency or
  \<^verbatim>\<open>None\<close>; the code tests its truth value.\<close>

type_synonym software_roots = "string \<Rightarrow> string option"

definition has_root :: "software_roots \<Rightarrow> string \<Rightarrow> bool" where
  "has_root roots name = (case roots name of None \<Rightarrow> False | Some p \<Rightarrow> p \<noteq> [])"

subsection \<open>Formatting\<close>

definition digit_char :: "nat \<Rightarrow> char" where
  "digit_char n = ''0123456789'' ! (n mod 10)"

fun show_nat :: "nat \<Rightarrow> string" where
  "show_nat n = (if n < 10 then [digit_char n] else show_nat (n div 10) @ [digit_char n])"

text \<open>\<^verbatim>\<open>'%d' % i\<close>\<close>

definition show_int :: "int \<Rightarrow> string" where
  "show_int i = (if i < 0 then CHR ''-'' # show_nat (nat (- i)) else show_nat (nat i))"

text \<open>\<^verbatim>\<open>sep.join(xs)\<close>\<close>

fun join :: "string \<Rightarrow> string list \<Rightarrow> string" where
  "join sep [] = []"
| "join sep [x] = x"
| "join sep (x # y # ys) = x @ sep @ join sep (y # ys)"

subsection \<open>The configure hook\<close>

definition add_mpi :: "easyblock \<Rightarrow> unit step" where
  "add_mpi self =
     (if usempi self then cfg_update_configopts ''-DENABLE_MPI=ON'' else ret ())"

definition add_openmp :: "easyblock \<Rightarrow> unit step" where
  "add_openmp self =
     (if openmp self then cfg_update_configopts ''-DENABLE_OPENMP=ON'' else ret ())"

definition add_cuda :: "easyblock \<Rightarrow> unit step" where
  "add_cuda self =
     (if with_cuda (cfg self)
      then seq (cfg_update_configopts ''-DQE_ENABLE_CUDA=ON'')
               (cfg_update_configopts ''-DQE_ENABLE_OPENACC=ON'')
      else ret ())"

definition add_scalapack :: "easyblock \<Rightarrow> unit step" where
  "add_scalapack self =
     (if with_scalapack (cfg self)
      then (if \<not> usempi self
            then raise (EasyBuildError ''ScaLAPACK support requires MPI'')
            else cfg_update_configopts ''-DQE_ENABLE_SCALAPACK=ON'')
      else ret ())"

definition add_fox :: "easyblock \<Rightarrow> unit step" where
  "add_fox self =
     (if with_fox (cfg self) then cfg_update_configopts ''-DQE_ENABLE_FOX=ON'' else ret ())"

definition add_hdf5 :: "software_roots \<Rightarrow> unit step" where
  "add_hdf5 roots =
     (if has_root roots ''HDF5'' then cfg_update_configopts ''-DQE_ENABLE_HDF5=ON''
      else ret ())"

definition add_libxc :: "software_roots \<Rightarrow> unit step" where
  "add_libxc roots =
     (if has_root roots ''libxc'' then cfg_update_configopts ''-DQE_ENABLE_LIBXC=ON''
      else ret ())"

definition add_elpa :: "easyblock \<Rightarrow> software_roots \<Rightarrow> unit step" where
  "add_elpa self roots =
     (if has_root roots ''ELPA''
      then (if \<not> with_scalapack (cfg self)
            then raise (EasyBuildError ''ELPA support requires ScaLAPACK'')
            else if version self = [7, 3] \<and> openmp self
            then raise (EasyBuildError ''QE 7.3 with cmake does not support ELPA with OpenMP'')
            else cfg_update_configopts ''-DQE_ENABLE_ELPA=ON'')
      else ret ())"

definition add_gipaw :: "easyblock \<Rightarrow> string list step" where
  "add_gipaw self =
     (if with_gipaw (cfg self)
      then (if version self = [7, 3, 1]
            then raise (EasyBuildError ''GIPAW will fail to compile in QE 7.3.1'')
            else seq (check_bins_extend [''gipaw.x'']) (ret [''gipaw'']))
      else ret [])"

definition add_d3q :: "easyblock \<Rightarrow> string list step" where
  "add_d3q self =
     (if with_d3q (cfg self)
      then (if lv_less [7, 0] (version self)
            then raise (EasyBuildError ''D3Q is not supported in QE 7.0+'')
            else seq (check_bins_extend
                       [''d3_asr3.x'', ''d3_lw.x'', ''d3_q2r.x'', ''d3_qq2rr.x'', ''d3q.x'',
                        ''d3_r2q.x'', ''d3_recenter.x'', ''d3_sparse.x'', ''d3_sqom.x'',
                        ''d3_tk.x''])
                     (ret [''d3q'']))
      else ret [])"

definition add_qmcpack :: "easyblock \<Rightarrow> string list step" where
  "add_qmcpack self =
     (if with_qmcpack (cfg self)
      then seq (check_bins_extend [''pw2qmcpack.x'']) (ret [''pw2qmcpack''])
      else ret [])"

definition add_toolchains_opts :: "easyblock \<Rightarrow> unit step" where
  "add_toolchains_opts self = seq (add_mpi self) (seq (add_openmp self) (add_cuda self))"

definition add_libraries :: "easyblock \<Rightarrow> software_roots \<Rightarrow> unit step" where
  "add_libraries self roots =
     seq (add_scalapack self)
    (seq (add_fox self)
    (seq (add_libxc roots)
    (seq (add_elpa self roots)
         (add_hdf5 roots))))"

definition add_plugins :: "easyblock \<Rightarrow> unit step" where
  "add_plugins self =
     bind (add_gipaw self) (\<lambda>p1.
     bind (add_d3q self) (\<lambda>p2.
     bind (add_qmcpack self) (\<lambda>p3.
       let plugins = [] @ p1 @ p2 @ p3
       in if plugins \<noteq> []
          then cfg_update_configopts
                 (''-DQE_ENABLE_PLUGINS='' @ [CHR 0x22] @ join '';'' plugins @ [CHR 0x22])
          else ret ())))"

definition link_workaround :: "easyblock \<Rightarrow> unit step" where
  "link_workaround self s =
     (if build_shared_libs (cfg self) \<and> comp_fam self = INTELCOMP
      then (Inr (), s\<lparr>ldflags :=
              Some ((case ldflags s of None \<Rightarrow> [] | Some v \<Rightarrow> v)
                    @ '' -Wl,--copy-dt-needed-entries '')\<rparr>)
      else (Inr (), s))"

text \<open>
  \<^verbatim>\<open>configure_step\<close>, up to the call of the superclass's configure step, which runs
  CMake with the arguments and is the framework's.
\<close>

definition configure_step :: "easyblock \<Rightarrow> software_roots \<Rightarrow> unit step" where
  "configure_step self roots =
     (if lv_less (version self) [7, 3]
      then raise (EasyBuildError
                    ''EB QuantumEspresso cmake is implemented for versions >= 7.3'')
      else
        seq (add_toolchains_opts self)
       (seq (add_libraries self roots)
       (seq (add_plugins self)
       (seq (cfg_update_configopts ''-DQE_ENABLE_TEST=ON'')
       (seq (cfg_update_configopts
               (''-DTESTCODE_NPROCS='' @ show_int (test_suite_nprocs (cfg self))))
       (seq (cfg_update_configopts ''-DQE_CLOCK_SECONDS=ON'')
            (link_workaround self)))))))"

subsection \<open>Strings\<close>

text \<open>\<^verbatim>\<open>s.startswith(p)\<close>\<close>

fun startswith :: "string \<Rightarrow> string \<Rightarrow> bool" where
  "startswith [] s = True"
| "startswith (p # ps) [] = False"
| "startswith (p # ps) (c # cs) = (p = c \<and> startswith ps cs)"

text \<open>\<^verbatim>\<open>pat in s\<close> on strings: \<open>pat\<close> occurs in \<open>s\<close> at some position.\<close>

fun contains :: "string \<Rightarrow> string \<Rightarrow> bool" where
  "contains pat [] = (pat = [])"
| "contains pat (c # cs) = (startswith pat (c # cs) \<or> contains pat cs)"

text \<open>
  \<^verbatim>\<open>s.splitlines()\<close>: the line boundaries of Python among the code points below 256
  are \<^verbatim>\<open>\n\<close>, \<^verbatim>\<open>\r\<close>, \<^verbatim>\<open>\r\n\<close>, \<^verbatim>\<open>\x0b\<close>, \<^verbatim>\<open>\x0c\<close>,
  \<^verbatim>\<open>\x1c\<close>, \<^verbatim>\<open>\x1d\<close>, \<^verbatim>\<open>\x1e\<close> and \<^verbatim>\<open>\x85\<close>; the boundaries are not
  kept, and a boundary at the end of the text starts no further line. The first argument
  is the line read so far, reversed.
\<close>

definition is_linebreak :: "char \<Rightarrow> bool" where
  "is_linebreak c =
     (c \<in> set [CHR 0x0A, CHR 0x0D, CHR 0x0B, CHR 0x0C, CHR 0x1C, CHR 0x1D, CHR 0x1E, CHR 0x85])"

fun splitlines_from :: "string \<Rightarrow> string \<Rightarrow> string list" where
  "splitlines_from cur [] = (if cur = [] then [] else [rev cur])"
| "splitlines_from cur [c] =
     (if is_linebreak c then [rev cur] else [rev (c # cur)])"
| "splitlines_from cur (c # d # cs) =
     (if c = CHR 0x0D \<and> d = CHR 0x0A then rev cur # splitlines_from [] cs
      else if is_linebreak c then rev cur # splitlines_from [] (d # cs)
      else splitlines_from (c # cur) (d # cs))"

definition splitlines :: "string \<Rightarrow> string list" where
  "splitlines s = splitlines_from [] s"

text \<open>
  \<^verbatim>\<open>s.split()\<close>: the words between runs of whitespace. Python's whitespace among the
  code points below 256 is \<^verbatim>\<open>\t\<close>, \<^verbatim>\<open>\n\<close>, \<^verbatim>\<open>\x0b\<close>, \<^verbatim>\<open>\x0c\<close>,
  \<^verbatim>\<open>\r\<close>, \<^verbatim>\<open>\x1c\<close> to \<^verbatim>\<open>\x1f\<close>, the space, \<^verbatim>\<open>\x85\<close> and \<^verbatim>\<open>\xa0\<close>.
\<close>

definition is_whitespace :: "char \<Rightarrow> bool" where
  "is_whitespace c =
     (c \<in> set [CHR 0x09, CHR 0x0A, CHR 0x0B, CHR 0x0C, CHR 0x0D, CHR 0x1C, CHR 0x1D,
                CHR 0x1E, CHR 0x1F, CHR 0x20, CHR 0x85, CHR 0xA0])"

fun split_from :: "string \<Rightarrow> string \<Rightarrow> string list" where
  "split_from cur [] = (if cur = [] then [] else [rev cur])"
| "split_from cur (c # cs) =
     (if is_whitespace c
      then (if cur = [] then split_from [] cs else rev cur # split_from [] cs)
      else split_from (c # cur) cs)"

definition py_split :: "string \<Rightarrow> string list" where
  "py_split s = split_from [] s"

subsection \<open>The test hook\<close>

text \<open>
  The pattern of the summary line,
  \<^verbatim>\<open>^ *(?P<perc>\d+)% tests passed, +(?P<failed>\d+) +tests failed out of +(?P<total>\d+)\<close>,
  searched with \<^verbatim>\<open>re.MULTILINE\<close>.

  Each repetition of the pattern is followed by an item that cannot start with a character
  of the repeated class (a digit after spaces, \<^verbatim>\<open>%\<close> or a space after digits, the
  letter \<^verbatim>\<open>t\<close> after spaces), so the pattern matches at a position exactly when the
  greedy reading does, and the groups are the maximal runs of digits. Among the code points
  below 256, \<^verbatim>\<open>\d\<close> is \<^verbatim>\<open>0\<close> to \<^verbatim>\<open>9\<close>. The items take the text at a
  position and return the text after the item.
\<close>

definition is_digit :: "char \<Rightarrow> bool" where
  "is_digit c = (c \<in> set ''0123456789'')"

definition is_blank :: "char \<Rightarrow> bool" where
  "is_blank c = (c = CHR '' '')"

text \<open>\<^verbatim>\<open> *\<close>\<close>

definition spaces0 :: "string \<Rightarrow> string" where
  "spaces0 s = dropWhile is_blank s"

text \<open>\<^verbatim>\<open> +\<close>\<close>

definition spaces1 :: "string \<Rightarrow> string option" where
  "spaces1 s = (case s of [] \<Rightarrow> None
                | c # cs \<Rightarrow> if is_blank c then Some (dropWhile is_blank cs) else None)"

text \<open>\<^verbatim>\<open>(\d+)\<close>: the group and the text after it.\<close>

definition digits1 :: "string \<Rightarrow> (string \<times> string) option" where
  "digits1 s = (if takeWhile is_digit s = [] then None
                else Some (takeWhile is_digit s, dropWhile is_digit s))"

text \<open>A literal piece of the pattern.\<close>

definition literal :: "string \<Rightarrow> string \<Rightarrow> string option" where
  "literal p s = (if startswith p s then Some (drop (length p) s) else None)"

text \<open>The pattern after \<^verbatim>\<open>^\<close>, at the text of a position: the three groups.\<close>

definition match_summary :: "string \<Rightarrow> (string \<times> string \<times> string) option" where
  "match_summary s =
     Option.bind (digits1 (spaces0 s)) (\<lambda>(perc, s1).
     Option.bind (literal ''% tests passed,'' s1) (\<lambda>s2.
     Option.bind (spaces1 s2) (\<lambda>s3.
     Option.bind (digits1 s3) (\<lambda>(failed, s4).
     Option.bind (spaces1 s4) (\<lambda>s5.
     Option.bind (literal ''tests failed out of'' s5) (\<lambda>s6.
     Option.bind (spaces1 s6) (\<lambda>s7.
     Option.bind (digits1 s7) (\<lambda>(total_count, s8).
       Some (perc, failed, total_count)))))))))"

text \<open>
  \<^verbatim>\<open>re.search(rgx, out, re.MULTILINE)\<close>: the positions of the text from left to right;
  \<^verbatim>\<open>^\<close> holds at the start of the text and right after each \<^verbatim>\<open>\n\<close>. The flag says
  whether the position is such a start.
\<close>

fun re_search :: "bool \<Rightarrow> string \<Rightarrow> (string \<times> string \<times> string) option" where
  "re_search bol [] = (if bol then match_summary [] else None)"
| "re_search bol (c # cs) =
     (case (if bol then match_summary (c # cs) else None) of
        Some g \<Rightarrow> Some g
      | None \<Rightarrow> re_search (c = CHR 0x0A) cs)"

text \<open>\<^verbatim>\<open>int(ds)\<close> on a string of decimal digits.\<close>

definition digit_val :: "char \<Rightarrow> nat" where
  "digit_val c = of_char c - 48"

definition py_int :: "string \<Rightarrow> nat" where
  "py_int ds = foldl (\<lambda>n c. 10 * n + digit_val c) 0 ds"

text \<open>The inner \<^verbatim>\<open>for allowed in allow_fail\<close>: whether the loop leaves by
  \<^verbatim>\<open>break\<close>.\<close>

fun allowed_failure :: "string list \<Rightarrow> string \<Rightarrow> bool" where
  "allowed_failure [] line = False"
| "allowed_failure (allowed # rest) line =
     (if contains allowed line then True else allowed_failure rest line)"

text \<open>The outer \<^verbatim>\<open>for line in out.splitlines()\<close>, with the list \<^verbatim>\<open>failures\<close>.\<close>

fun scan_failures :: "string list \<Rightarrow> string list \<Rightarrow> string list \<Rightarrow> string list" where
  "scan_failures allow_fail [] failures = failures"
| "scan_failures allow_fail (line # rest) failures =
     scan_failures allow_fail rest
       (if contains ''***Failed'' line
        then (if allowed_failure allow_fail line then failures else failures @ [line])
        else failures)"

text \<open>
  \<^verbatim>\<open>test_step\<close> from the output of the harness on. The rates \<^verbatim>\<open>perc\<close> and
  \<^verbatim>\<open>thr\<close> are Python floats; they are modelled as exact rationals, \<open>perc\<close> as the
  quotient itself and \<open>thr\<close> as the number that the parameter stands for: the
  rounding of the division and the range of the floats are not modelled.
\<close>

definition evaluate :: "easyconfig \<Rightarrow> string \<Rightarrow> error + string" where
  "evaluate c out =
     (let thr = test_suite_threshold c;
          allow_fail = test_suite_allow_failures c
      in case re_search True out of
           None \<Rightarrow> Inl (EasyBuildError ''Failed to parse test suite output'')
         | Some (g_perc, g_failed, g_total) \<Rightarrow>
             let perc = of_nat (py_int g_perc) / 100;
                 num_fail = int (py_int g_failed);
                 total_count = int (py_int g_total);
                 passed = total_count - num_fail;
                 failures = scan_failures allow_fail (splitlines out) [];
                 num_fail = length failures;
                 num_fail_thr = test_suite_max_failed c
             in if perc < thr then Inl (RateBelowThreshold thr perc)
                else if int num_fail > num_fail_thr
                then Inl (TooManyFailures num_fail_thr num_fail)
                else Inr out)"

text \<open>
  \<^verbatim>\<open>test_step\<close>: the command line of the harness, and \<^verbatim>\<open>run_cmd\<close> (the
  framework's, which returns the output of the command) as a parameter.
\<close>

definition test_step :: "easyblock \<Rightarrow> (string \<Rightarrow> string) \<Rightarrow> error + string" where
  "test_step self run_cmd =
     (let nprocs = test_suite_nprocs (cfg self)
      in if nprocs = 0 then Inl ZeroDivisionError
         else
           let concurrent = max 1 (parallel (cfg self) div nprocs);
               cmd = join '' '' [''ctest'', ''-j'' @ show_int concurrent, ''--output-on-failure''];
               out = run_cmd cmd
           in evaluate (cfg self) out)"

subsection \<open>The sanity check hook\<close>

text \<open>
  \<^verbatim>\<open>sanity_check_step\<close> on the list of the targets and the list
  \<^verbatim>\<open>self.check_bins\<close>: each \<^verbatim>\<open>if\<close> of the source in its order, each extending
  the list.
\<close>

definition sanity_check_bins :: "string list \<Rightarrow> string list \<Rightarrow> string list" where
  "sanity_check_bins targets check_bins0 =
     (let all_cond = (length targets = 0 \<or> ''all_currents'' \<in> set targets);
          pwall_cond = (''pwall'' \<in> set targets);
          bins = check_bins0;
          bins = (if all_cond \<or> ''cp'' \<in> set targets
                  then bins @ [''cp.x'', ''cppp.x'', ''manycp.x'', ''wfdd.x''] else bins);
          bins = (if all_cond \<or> ''epw'' \<in> set targets
                  then bins @ [''epw.x''] else bins);
          bins = (if all_cond \<or> ''gwl'' \<in> set targets
                  then bins @ [''abcoeff_to_eps.x'', ''bse_main.x'', ''graph.x'', ''gww_fit.x'',
                               ''gww.x'', ''head.x'', ''memory_pw4gww.x'', ''pw4gww.x'',
                               ''simple_bse.x'', ''simple_ip.x'', ''simple.x'']
                  else bins);
          bins = (if all_cond \<or> ''hp'' \<in> set targets
                  then bins @ [''hp.x''] else bins);
          bins = (if all_cond \<or> ''ld1'' \<in> set targets
                  then bins @ [''ld1.x''] else bins);
          bins = (if all_cond \<or> pwall_cond \<or> ''neb'' \<in> set targets
                  then bins @ [''neb.x'', ''path_interpolation.x''] else bins);
          bins = (if all_cond \<or> pwall_cond \<or> ''ph'' \<in> set targets
                  then bins @ [''alpha2f.x'', ''dynmat.x'', ''fd_ef.x'', ''fd.x'', ''lambda.x'',
                               ''phcg.x'', ''postahc.x'', ''q2r.x'', ''dvscf_q2r.x'', ''epa.x'',
                               ''fd_ifc.x'', ''fqha.x'', ''matdyn.x'', ''ph.x'', ''q2qstar.x'']
                  else bins);
          bins = (if all_cond \<or> pwall_cond \<or> ''pp'' \<in> set targets
                  then bins @ [''average.x'', ''dos_sp.x'', ''ef.x'', ''fermi_int_0.x'',
                               ''fermi_proj.x'', ''fs.x'', ''molecularpdos.x'', ''pawplot.x'',
                               ''plotband.x'', ''plotrho.x'', ''ppacf.x'', ''pp.x'', ''pw2bgw.x'',
                               ''pw2gt.x'', ''pw2wannier90.x'', ''wannier_ham.x'', ''wfck2r.x'',
                               ''bands.x'', ''dos.x'', ''epsilon.x'', ''fermi_int_1.x'',
                               ''fermi_velocity.x'', ''initial_state.x'', ''open_grid.x'',
                               ''plan_avg.x'', ''plotproj.x'', ''pmw.x'', ''pprism.x'',
                               ''projwfc.x'', ''pw2critic.x'', ''pw2gw.x'', ''sumpdos.x'',
                               ''wannier_plot.x'']
                  else bins);
          bins = (if all_cond \<or> pwall_cond \<or> ''pw'' \<in> set targets
                  then bins @ [''cell2ibrav.x'', ''ev.x'', ''ibrav2cell.x'', ''kpoints.x'',
                               ''pwi2xsf.x'', ''pw.x'', ''scan_ibrav.x'']
                  else bins);
          bins = (if all_cond \<or> pwall_cond \<or> ''pwcond'' \<in> set targets
                  then bins @ [''pwcond.x''] else bins);
          bins = (if all_cond \<or> ''tddfpt'' \<in> set targets
                  then bins @ [''turbo_davidson.x'', ''turbo_eels.x'', ''turbo_lanczos.x'',
                               ''turbo_magnon.x'', ''turbo_spectrum.x'']
                  else bins);
          bins = (if all_cond \<or> ''upf'' \<in> set targets
                  then bins @ [''upfconv.x'', ''virtual_v2.x''] else bins);
          bins = (if all_cond \<or> ''xspectra'' \<in> set targets
                  then bins @ [''molecularnexafs.x'', ''spectra_correction.x'', ''xspectra.x'']
                  else bins)
      in bins)"

text \<open>\<^verbatim>\<open>os.path.join('bin', x)\<close> for a relative name \<open>x\<close>.\<close>

definition path_join_bin :: "string \<Rightarrow> string" where
  "path_join_bin x = ''bin/'' @ x"

text \<open>
  \<^verbatim>\<open>sanity_check_step\<close>: the new state and the \<^verbatim>\<open>files\<close> of
  \<^verbatim>\<open>custom_paths\<close>, which go to the superclass's sanity check (the framework's).
\<close>

definition sanity_check_step :: "easyblock \<Rightarrow> build_state \<Rightarrow> string list \<times> build_state" where
  "sanity_check_step self s =
     (let targets = py_split (buildopts (cfg self));
          s' = s\<lparr>check_bins := sanity_check_bins targets (check_bins s)\<rparr>
      in (map path_join_bin (check_bins s'), s'))"

text \<open>The state after \<^verbatim>\<open>__init__\<close>, for the arguments and the environment that the
  framework has at that time.\<close>

definition init_state :: "string list \<Rightarrow> string option \<Rightarrow> build_state" where
  "init_state opts env_ldflags =
     \<lparr>configopts = opts, check_bins = [], ldflags = env_ldflags\<rparr>"

section \<open>Notions of the specification\<close>

subsection \<open>The target catalog\<close>

text \<open>
  The specification's target catalog, "a fixed mapping from target name to its ordered set
  of artifact basenames", with the note of which entries the umbrella target
  \<^verbatim>\<open>pwall\<close> selects: the name, whether \<^verbatim>\<open>pwall\<close> selects the entry, and the
  basenames. \<open>derive\<close> is the specification's
  \<^verbatim>\<open>derive(requested_targets, catalog, extra_feature_artifacts)\<close>, with
  \<^verbatim>\<open>all_currents\<close> as the token that selects every entry; it is compared with
  \<open>sanity_check_bins\<close> below.
\<close>

definition catalog :: "(string \<times> bool \<times> string list) list" where
  "catalog =
     [(''cp'', False, [''cp.x'', ''cppp.x'', ''manycp.x'', ''wfdd.x'']),
      (''epw'', False, [''epw.x'']),
      (''gwl'', False,
         [''abcoeff_to_eps.x'', ''bse_main.x'', ''graph.x'', ''gww_fit.x'', ''gww.x'', ''head.x'',
          ''memory_pw4gww.x'', ''pw4gww.x'', ''simple_bse.x'', ''simple_ip.x'', ''simple.x'']),
      (''hp'', False, [''hp.x'']),
      (''ld1'', False, [''ld1.x'']),
      (''neb'', True, [''neb.x'', ''path_interpolation.x'']),
      (''ph'', True,
         [''alpha2f.x'', ''dynmat.x'', ''fd_ef.x'', ''fd.x'', ''lambda.x'', ''phcg.x'',
          ''postahc.x'', ''q2r.x'', ''dvscf_q2r.x'', ''epa.x'', ''fd_ifc.x'', ''fqha.x'',
          ''matdyn.x'', ''ph.x'', ''q2qstar.x'']),
      (''pp'', True,
         [''average.x'', ''dos_sp.x'', ''ef.x'', ''fermi_int_0.x'', ''fermi_proj.x'', ''fs.x'',
          ''molecularpdos.x'', ''pawplot.x'', ''plotband.x'', ''plotrho.x'', ''ppacf.x'',
          ''pp.x'', ''pw2bgw.x'', ''pw2gt.x'', ''pw2wannier90.x'', ''wannier_ham.x'',
          ''wfck2r.x'', ''bands.x'', ''dos.x'', ''epsilon.x'', ''fermi_int_1.x'',
          ''fermi_velocity.x'', ''initial_state.x'', ''open_grid.x'', ''plan_avg.x'',
          ''plotproj.x'', ''pmw.x'', ''pprism.x'', ''projwfc.x'', ''pw2critic.x'', ''pw2gw.x'',
          ''sumpdos.x'', ''wannier_plot.x'']),
      (''pw'', True,
         [''cell2ibrav.x'', ''ev.x'', ''ibrav2cell.x'', ''kpoints.x'', ''pwi2xsf.x'', ''pw.x'',
          ''scan_ibrav.x'']),
      (''pwcond'', True, [''pwcond.x'']),
      (''tddfpt'', False,
         [''turbo_davidson.x'', ''turbo_eels.x'', ''turbo_lanczos.x'', ''turbo_magnon.x'',
          ''turbo_spectrum.x'']),
      (''upf'', False, [''upfconv.x'', ''virtual_v2.x'']),
      (''xspectra'', False, [''molecularnexafs.x'', ''spectra_correction.x'', ''xspectra.x''])]"

definition entry_bins :: "string \<times> bool \<times> string list \<Rightarrow> string list" where
  "entry_bins e = snd (snd e)"

definition selected :: "string list \<Rightarrow> string \<times> bool \<times> string list \<Rightarrow> bool" where
  "selected targets e =
     (targets = [] \<or> ''all_currents'' \<in> set targets
      \<or> (fst (snd e) \<and> ''pwall'' \<in> set targets) \<or> fst e \<in> set targets)"

definition derive :: "string list \<Rightarrow> string list \<Rightarrow> string list" where
  "derive targets extra =
     extra @ concat (map (\<lambda>e. if selected targets e then entry_bins e else []) catalog)"

definition all_bins :: "string list" where
  "all_bins = concat (map entry_bins catalog)"

text \<open>The basenames that the plugin rules of a successful configure step leave in
  \<^verbatim>\<open>self.check_bins\<close>.\<close>

definition plugin_bins :: "easyblock \<Rightarrow> string list" where
  "plugin_bins self =
     (if with_gipaw (cfg self) then [''gipaw.x''] else [])
     @ (if with_qmcpack (cfg self) then [''pw2qmcpack.x''] else [])"

subsection \<open>Arguments and errors of the configure step\<close>

text \<open>
  What the rules append, rule by rule in their order: the arguments of the toolchain rules
  (MPI, OpenMP, CUDA); of the library rules that run before the ELPA rule (ScaLAPACK, FoX,
  libxc); of the ELPA rule and the HDF5 rule; and the basename that the GIPAW rule adds to
  \<^verbatim>\<open>self.check_bins\<close>.
\<close>

definition toolchain_args :: "easyblock \<Rightarrow> string list" where
  "toolchain_args self =
     (if usempi self then [''-DENABLE_MPI=ON''] else [])
     @ (if openmp self then [''-DENABLE_OPENMP=ON''] else [])
     @ (if with_cuda (cfg self) then [''-DQE_ENABLE_CUDA=ON'', ''-DQE_ENABLE_OPENACC=ON''] else [])"

definition early_library_args :: "easyblock \<Rightarrow> software_roots \<Rightarrow> string list" where
  "early_library_args self roots =
     (if with_scalapack (cfg self) then [''-DQE_ENABLE_SCALAPACK=ON''] else [])
     @ (if with_fox (cfg self) then [''-DQE_ENABLE_FOX=ON''] else [])
     @ (if has_root roots ''libxc'' then [''-DQE_ENABLE_LIBXC=ON''] else [])"

definition late_library_args :: "software_roots \<Rightarrow> string list" where
  "late_library_args roots =
     (if has_root roots ''ELPA'' then [''-DQE_ENABLE_ELPA=ON''] else [])
     @ (if has_root roots ''HDF5'' then [''-DQE_ENABLE_HDF5=ON''] else [])"

definition gipaw_bins :: "easyblock \<Rightarrow> string list" where
  "gipaw_bins self = (if with_gipaw (cfg self) then [''gipaw.x''] else [])"

text \<open>The messages of the rules that run up to the D3Q rule, on a version that the
  configure step accepts.\<close>

definition d3q_errors :: "string list" where
  "d3q_errors =
     [''ScaLAPACK support requires MPI'', ''ELPA support requires ScaLAPACK'',
      ''QE 7.3 with cmake does not support ELPA with OpenMP'',
      ''GIPAW will fail to compile in QE 7.3.1'', ''D3Q is not supported in QE 7.0+'']"

text \<open>A step leaves \<open>check_bins\<close> as it is.\<close>

definition keeps_bins :: "'a step \<Rightarrow> bool" where
  "keeps_bins m = (\<forall>s. check_bins (snd (m s)) = check_bins s)"

subsection \<open>Lines of the harness output\<close>

text \<open>
  The lines that the pattern's \<^verbatim>\<open>^\<close> sees: the pieces of the text between
  \<^verbatim>\<open>\n\<close> characters. \<open>first_summary\<close> is the groups of the first such line that
  starts with the summary pattern.
\<close>

fun split_nl :: "string \<Rightarrow> string list" where
  "split_nl [] = [[]]"
| "split_nl (c # cs) =
     (if c = CHR 0x0A then [] # split_nl cs
      else (case split_nl cs of [] \<Rightarrow> [[c]] | l # ls \<Rightarrow> (c # l) # ls))"

fun first_summary :: "string list \<Rightarrow> (string \<times> string \<times> string) option" where
  "first_summary [] = None"
| "first_summary (l # ls) =
     (case match_summary l of Some g \<Rightarrow> Some g | None \<Rightarrow> first_summary ls)"

section \<open>Example inputs\<close>

text \<open>The defaults of \<^verbatim>\<open>extra_options\<close>, with one build process and no build
  targets.\<close>

definition default_cfg :: easyconfig where
  "default_cfg =
     \<lparr>with_cuda = False, with_scalapack = True, with_fox = False, with_gipaw = True,
      with_d3q = False, with_qmcpack = False, test_suite_nprocs = 1,
      test_suite_allow_failures =
        [''test_qe_xclib_'', ''--hp_'', ''--ph_'', ''--epw_'', ''--tddfpt_''],
      test_suite_threshold = 97 / 100, test_suite_max_failed = 0,
      build_shared_libs = False, parallel = 1, buildopts = []\<rparr>"

text \<open>Version 7.3 on a toolchain with MPI and OpenMP.\<close>

definition qe73 :: easyblock where
  "qe73 = \<lparr>version = [7, 3], cfg = default_cfg, usempi = True, openmp = True,
            comp_fam = OtherComp ''GCC''\<rparr>"

text \<open>The same without ScaLAPACK, and an environment where ELPA is loaded.\<close>

definition qe73_no_scalapack :: easyblock where
  "qe73_no_scalapack = qe73\<lparr>cfg := default_cfg\<lparr>with_scalapack := False\<rparr>\<rparr>"

definition elpa_roots :: software_roots where
  "elpa_roots = (\<lambda>name. if name = ''ELPA'' then Some ''/apps/ELPA'' else None)"

definition no_roots :: software_roots where
  "no_roots = (\<lambda>name. None)"

text \<open>ScaLAPACK without MPI, on version 7.3 and on version 7.2.\<close>

definition qe73_no_mpi :: easyblock where
  "qe73_no_mpi = qe73\<lparr>usempi := False\<rparr>"

definition qe72_no_mpi :: easyblock where
  "qe72_no_mpi = qe73\<lparr>version := [7, 2], usempi := False\<rparr>"

text \<open>D3Q requested on version 7.4.\<close>

definition qe74_d3q :: easyblock where
  "qe74_d3q = qe73\<lparr>version := [7, 4], cfg := default_cfg\<lparr>with_d3q := True\<rparr>\<rparr>"

text \<open>
  A harness output with the summary line of the source's comment and one failure, which
  the default allow list covers; the same failure under a summary above the threshold,
  with a second failure that no rule covers; and an output without a summary line.
\<close>

definition failed_epw :: string where
  "failed_epw = ''635/635 Test #570: system--epw_wfpt-correctness ......***Failed    3.52 sec''"

definition failed_pw :: string where
  "failed_pw = ''12/635 Test #12: system--pw_scf-correctness ......***Failed    1.07 sec''"

definition out_low_rate :: string where
  "out_low_rate =
     failed_epw @ [CHR 0x0A] @ ''74% tests passed, 124 tests failed out of 481'' @ [CHR 0x0A]"

definition out_two_failures :: string where
  "out_two_failures =
     failed_epw @ [CHR 0x0A] @ failed_pw @ [CHR 0x0A]
     @ ''99% tests passed, 2 tests failed out of 635'' @ [CHR 0x0A]"

definition out_no_summary :: string where
  "out_no_summary = ''Test project /build'' @ [CHR 0x0A] @ ''No tests were found!!!''"

section \<open>The configure hook\<close>

subsection \<open>Steps\<close>

lemmas step_defs = ret_def raise_def bind_def seq_def cfg_update_configopts_def
  check_bins_extend_def

lemmas rule_defs = add_toolchains_opts_def add_mpi_def add_openmp_def add_cuda_def
  add_libraries_def add_scalapack_def add_fox_def add_libxc_def add_elpa_def add_hdf5_def
  add_plugins_def add_gipaw_def add_d3q_def add_qmcpack_def

lemma seq_Inr: "m s = (Inr (), s') \<Longrightarrow> seq m n s = n s'"
  by (simp add: seq_def bind_def)

lemma seq_Inl: "m s = (Inl e, s') \<Longrightarrow> seq m n s = (Inl e, s')"
  by (simp add: seq_def bind_def)

lemma seq_InrD:
  assumes "seq m n s = (Inr x, s')"
  obtains s1 where "m s = (Inr (), s1)" and "n s1 = (Inr x, s')"
  using assms by (auto simp add: seq_def bind_def split: prod.splits sum.splits)

lemma fst_seq:
  "fst (seq m n s) = (case fst (m s) of Inl e \<Rightarrow> Inl e | Inr u \<Rightarrow> fst (n (snd (m s))))"
  by (simp add: seq_def bind_def split: prod.splits sum.splits)

lemma snd_seq:
  "snd (seq m n s) = (case fst (m s) of Inl e \<Rightarrow> snd (m s) | Inr u \<Rightarrow> snd (n (snd (m s))))"
  by (simp add: seq_def bind_def split: prod.splits sum.splits)

subsection \<open>The two version gates\<close>

text \<open>A version that is not below 7.3 is above 7.0.\<close>

lemma lv_gate:
  assumes "\<not> lv_less v [7, 3]"
  shows "lv_less [7, 0] v"
proof (cases v)
  case Nil
  with assms show ?thesis by simp
next
  case (Cons a t)
  show ?thesis
  proof (cases t)
    case Nil
    with assms Cons show ?thesis by (simp split: if_splits)
  next
    case (Cons b u)
    with assms \<open>v = a # t\<close> show ?thesis by (simp split: if_splits)
  qed
qed

subsection \<open>What the rule groups append\<close>

lemma toolchain_state:
  "add_toolchains_opts self s = (Inr (), s\<lparr>configopts := configopts s @ toolchain_args self\<rparr>)"
  by (simp add: add_toolchains_opts_def add_mpi_def add_openmp_def add_cuda_def step_defs
      toolchain_args_def)

lemma libraries_state:
  "add_libraries self roots s =
     (if with_scalapack (cfg self) \<and> \<not> usempi self
      then (Inl (EasyBuildError ''ScaLAPACK support requires MPI''), s)
      else if has_root roots ''ELPA'' \<and> \<not> with_scalapack (cfg self)
      then (Inl (EasyBuildError ''ELPA support requires ScaLAPACK''),
            s\<lparr>configopts := configopts s @ early_library_args self roots\<rparr>)
      else if has_root roots ''ELPA'' \<and> version self = [7, 3] \<and> openmp self
      then (Inl (EasyBuildError ''QE 7.3 with cmake does not support ELPA with OpenMP''),
            s\<lparr>configopts := configopts s @ early_library_args self roots\<rparr>)
      else (Inr (), s\<lparr>configopts := configopts s @ early_library_args self roots
                          @ late_library_args roots\<rparr>))"
  by (simp add: add_libraries_def add_scalapack_def add_fox_def add_libxc_def add_elpa_def
      add_hdf5_def step_defs early_library_args_def late_library_args_def)

lemma plugins_error_state:
  assumes "add_plugins self s = (Inl e, s')"
  shows "(e = EasyBuildError ''GIPAW will fail to compile in QE 7.3.1'' \<and> s' = s)
       \<or> (e = EasyBuildError ''D3Q is not supported in QE 7.0+''
          \<and> s' = s\<lparr>check_bins := check_bins s @ gipaw_bins self\<rparr>)"
  using assms
  by (auto simp add: add_plugins_def add_gipaw_def add_d3q_def add_qmcpack_def step_defs
      gipaw_bins_def split: if_splits)

lemma rest_ok:
  "fst (seq (cfg_update_configopts a) (seq (cfg_update_configopts b)
        (seq (cfg_update_configopts c) (link_workaround self))) s) = Inr ()"
  by (simp add: seq_def bind_def cfg_update_configopts_def link_workaround_def)

lemma add_toolchains_opts_ok: "fst (add_toolchains_opts self s) = Inr ()"
  by (simp add: add_toolchains_opts_def add_mpi_def add_openmp_def add_cuda_def step_defs)

lemma add_libraries_outcome:
  "fst (add_libraries self roots s) \<in>
     {Inr (), Inl (EasyBuildError ''ScaLAPACK support requires MPI''),
      Inl (EasyBuildError ''ELPA support requires ScaLAPACK''),
      Inl (EasyBuildError ''QE 7.3 with cmake does not support ELPA with OpenMP'')}"
  by (simp add: add_libraries_def add_scalapack_def add_fox_def add_libxc_def add_elpa_def
      add_hdf5_def step_defs)

lemma add_plugins_d3q:
  assumes "with_d3q (cfg self)" and "lv_less [7, 0] (version self)"
  shows "fst (add_plugins self s) = Inl (EasyBuildError ''GIPAW will fail to compile in QE 7.3.1'')
       \<or> fst (add_plugins self s) = Inl (EasyBuildError ''D3Q is not supported in QE 7.0+'')"
  using assms
  by (simp add: add_plugins_def add_gipaw_def add_d3q_def step_defs)

subsection \<open>Errors of the configure step\<close>

lemmas example_defs = default_cfg_def qe73_def qe73_no_scalapack_def elpa_roots_def no_roots_def
  qe73_no_mpi_def qe72_no_mpi_def qe74_d3q_def init_state_def has_root_def

text \<open>
  Claim C1, as stated: when the configure step raises for an invalid feature combination,
  the accumulated build arguments are as before the call. It fails: version 7.3 with MPI
  and OpenMP, ScaLAPACK switched off and ELPA loaded raises in the ELPA rule, after the
  toolchain rules have appended their two arguments.
\<close>

theorem configure_step_error_changes_state:
  "configure_step qe73_no_scalapack elpa_roots (init_state [] None) =
     (Inl (EasyBuildError ''ELPA support requires ScaLAPACK''),
      \<lparr>configopts = [''-DENABLE_MPI=ON'', ''-DENABLE_OPENMP=ON''], check_bins = [],
       ldflags = None\<rparr>)
   \<and> configopts (snd (configure_step qe73_no_scalapack elpa_roots (init_state [] None)))
       \<noteq> configopts (init_state [] None)"
  by (simp add: configure_step_def rule_defs step_defs example_defs)

text \<open>
  Claim C1, amended: when the configure step raises, the state is the state before the
  call with exactly the arguments of the rules that ran before the failing rule appended
  to the build arguments, in the order of the rules: nothing when the version is below the
  minimum 7.3; the toolchain arguments when the ScaLAPACK rule raises; those and the
  ScaLAPACK, FoX and libxc arguments when the ELPA rule raises; those and the ELPA and HDF5
  arguments when the GIPAW rule or the D3Q rule raises. No argument of the failing rule or
  of a later rule is appended (no plugin argument, no argument of the test
  infrastructure), the \<^verbatim>\<open>LDFLAGS\<close> entry is as before, and
  \<^verbatim>\<open>self.check_bins\<close> is as before but for \<^verbatim>\<open>gipaw.x\<close>, which the GIPAW rule
  has added when the D3Q rule raises.
\<close>

theorem configure_step_error_state:
  assumes "configure_step self roots s = (Inl e, s')"
  shows "(e = EasyBuildError ''EB QuantumEspresso cmake is implemented for versions >= 7.3''
          \<and> s' = s)
       \<or> (e = EasyBuildError ''ScaLAPACK support requires MPI''
          \<and> s' = s\<lparr>configopts := configopts s @ toolchain_args self\<rparr>)
       \<or> ((e = EasyBuildError ''ELPA support requires ScaLAPACK''
           \<or> e = EasyBuildError ''QE 7.3 with cmake does not support ELPA with OpenMP'')
          \<and> s' = s\<lparr>configopts := configopts s @ toolchain_args self
                                   @ early_library_args self roots\<rparr>)
       \<or> (e = EasyBuildError ''GIPAW will fail to compile in QE 7.3.1''
          \<and> s' = s\<lparr>configopts := configopts s @ toolchain_args self
                                   @ early_library_args self roots @ late_library_args roots\<rparr>)
       \<or> (e = EasyBuildError ''D3Q is not supported in QE 7.0+''
          \<and> s' = s\<lparr>configopts := configopts s @ toolchain_args self
                                   @ early_library_args self roots @ late_library_args roots,
                    check_bins := check_bins s @ gipaw_bins self\<rparr>)"
proof (cases "lv_less (version self) [7, 3]")
  case True
  with assms show ?thesis by (simp add: configure_step_def raise_def)
next
  case False
  let ?s1 = "s\<lparr>configopts := configopts s @ toolchain_args self\<rparr>"
  let ?rest = "seq (cfg_update_configopts ''-DQE_ENABLE_TEST=ON'')
       (seq (cfg_update_configopts
               (''-DTESTCODE_NPROCS='' @ show_int (test_suite_nprocs (cfg self))))
       (seq (cfg_update_configopts ''-DQE_CLOCK_SECONDS=ON'')
            (link_workaround self)))"
  from assms False have c: "seq (add_libraries self roots) (seq (add_plugins self) ?rest) ?s1
      = (Inl e, s')"
    by (simp add: configure_step_def seq_Inr [OF toolchain_state])
  obtain r2 s2 where l: "add_libraries self roots ?s1 = (r2, s2)"
    by (cases "add_libraries self roots ?s1")
  show ?thesis
  proof (cases r2)
    case (Inl e2)
    with c l have "e = e2" "s' = s2" by (simp_all add: seq_Inl)
    with l Inl show ?thesis
      by (auto simp add: libraries_state split: if_splits)
  next
    case (Inr u)
    with l have s2: "s2 = ?s1\<lparr>configopts := configopts ?s1 @ early_library_args self roots
        @ late_library_args roots\<rparr>"
      by (auto simp add: libraries_state split: if_splits)
    from c l Inr have p: "seq (add_plugins self) ?rest s2 = (Inl e, s')"
      by (simp add: seq_Inr)
    obtain r3 s3 where q: "add_plugins self s2 = (r3, s3)"
      by (cases "add_plugins self s2")
    show ?thesis
    proof (cases r3)
      case (Inl e3)
      with p q have "e = e3" "s' = s3" by (simp_all add: seq_Inl)
      with plugins_error_state [of self s2 e3 s3] q Inl s2 show ?thesis by auto
    next
      case (Inr u3)
      with p q have r: "?rest s3 = (Inl e, s')" by (simp add: seq_Inr)
      have "fst (?rest s3) = Inr ()" by (rule rest_ok)
      then have False unfolding r by simp
      then show ?thesis ..
    qed
  qed
qed

theorem configure_step_error_state_witness:
  "configure_step qe73_no_scalapack elpa_roots (init_state [''-DCMAKE_BUILD_TYPE=Release''] None) =
     (Inl (EasyBuildError ''ELPA support requires ScaLAPACK''),
      \<lparr>configopts = [''-DCMAKE_BUILD_TYPE=Release'', ''-DENABLE_MPI=ON'', ''-DENABLE_OPENMP=ON''],
       check_bins = [], ldflags = None\<rparr>)
   \<and> \<lparr>configopts = [''-DCMAKE_BUILD_TYPE=Release'', ''-DENABLE_MPI=ON'', ''-DENABLE_OPENMP=ON''],
       check_bins = [], ldflags = None\<rparr> =
     (init_state [''-DCMAKE_BUILD_TYPE=Release''] None)
       \<lparr>configopts := configopts (init_state [''-DCMAKE_BUILD_TYPE=Release''] None)
          @ toolchain_args qe73_no_scalapack @ early_library_args qe73_no_scalapack elpa_roots\<rparr>
   \<and> configure_step qe74_d3q no_roots (init_state [''-DCMAKE_BUILD_TYPE=Release''] None) =
     (Inl (EasyBuildError ''D3Q is not supported in QE 7.0+''),
      \<lparr>configopts = [''-DCMAKE_BUILD_TYPE=Release'', ''-DENABLE_MPI=ON'', ''-DENABLE_OPENMP=ON'',
                     ''-DQE_ENABLE_SCALAPACK=ON''],
       check_bins = [''gipaw.x''], ldflags = None\<rparr>)
   \<and> \<lparr>configopts = [''-DCMAKE_BUILD_TYPE=Release'', ''-DENABLE_MPI=ON'', ''-DENABLE_OPENMP=ON'',
                     ''-DQE_ENABLE_SCALAPACK=ON''],
       check_bins = [''gipaw.x''], ldflags = None\<rparr> =
     (init_state [''-DCMAKE_BUILD_TYPE=Release''] None)
       \<lparr>configopts := configopts (init_state [''-DCMAKE_BUILD_TYPE=Release''] None)
          @ toolchain_args qe74_d3q @ early_library_args qe74_d3q no_roots
          @ late_library_args no_roots,
        check_bins := check_bins (init_state [''-DCMAKE_BUILD_TYPE=Release''] None)
          @ gipaw_bins qe74_d3q\<rparr>"
proof -
  let ?s = "init_state [''-DCMAKE_BUILD_TYPE=Release''] None"
  let ?s1 = "\<lparr>configopts =
      [''-DCMAKE_BUILD_TYPE=Release'', ''-DENABLE_MPI=ON'', ''-DENABLE_OPENMP=ON''],
    check_bins = [], ldflags = None\<rparr>"
  let ?s2 = "\<lparr>configopts =
      [''-DCMAKE_BUILD_TYPE=Release'', ''-DENABLE_MPI=ON'', ''-DENABLE_OPENMP=ON'',
       ''-DQE_ENABLE_SCALAPACK=ON''],
    check_bins = [''gipaw.x''], ldflags = None\<rparr>"
  have a: "configure_step qe73_no_scalapack elpa_roots ?s =
      (Inl (EasyBuildError ''ELPA support requires ScaLAPACK''), ?s1)"
    by (simp add: configure_step_def rule_defs step_defs example_defs)
  have b: "configure_step qe74_d3q no_roots ?s =
      (Inl (EasyBuildError ''D3Q is not supported in QE 7.0+''), ?s2)"
    by (simp add: configure_step_def rule_defs step_defs example_defs)
  from configure_step_error_state [OF a]
  have a': "?s1 = ?s\<lparr>configopts := configopts ?s
      @ toolchain_args qe73_no_scalapack @ early_library_args qe73_no_scalapack elpa_roots\<rparr>"
    by simp
  from configure_step_error_state [OF b]
  have b': "?s2 = ?s\<lparr>configopts := configopts ?s
      @ toolchain_args qe74_d3q @ early_library_args qe74_d3q no_roots
      @ late_library_args no_roots,
    check_bins := check_bins ?s @ gipaw_bins qe74_d3q\<rparr>"
    by simp
  from a a' b b' show ?thesis by blast
qed

text \<open>
  Claim C5, as stated: with ScaLAPACK requested and MPI disabled the configure step fails
  with an error that cites the MPI requirement, whatever the other inputs. It fails on
  version 7.2: the error is the one of the minimum version, which does not mention MPI.
\<close>

theorem configure_step_scalapack_old_version:
  "with_scalapack (cfg qe72_no_mpi) \<and> \<not> usempi qe72_no_mpi
   \<and> fst (configure_step qe72_no_mpi no_roots (init_state [] None)) =
       Inl (EasyBuildError ''EB QuantumEspresso cmake is implemented for versions >= 7.3'')
   \<and> \<not> contains ''MPI'' ''EB QuantumEspresso cmake is implemented for versions >= 7.3''"
  by (simp add: configure_step_def rule_defs step_defs example_defs)

text \<open>
  Claim C5, amended: with ScaLAPACK requested and MPI disabled the configure step fails,
  whatever the other inputs; on a version that is not below the minimum 7.3 the error is
  "ScaLAPACK support requires MPI", and below 7.3 it is the error of the minimum version.
\<close>

theorem configure_step_scalapack_requires_mpi:
  assumes "with_scalapack (cfg self)" and "\<not> usempi self"
  shows "fst (configure_step self roots s) =
     Inl (EasyBuildError
       (if lv_less (version self) [7, 3]
        then ''EB QuantumEspresso cmake is implemented for versions >= 7.3''
        else ''ScaLAPACK support requires MPI''))"
  using assms
  by (simp add: configure_step_def add_toolchains_opts_def add_mpi_def add_openmp_def
      add_cuda_def add_libraries_def add_scalapack_def step_defs)

theorem configure_step_scalapack_requires_mpi_witness:
  "with_scalapack (cfg qe73_no_mpi) \<and> \<not> usempi qe73_no_mpi
   \<and> \<not> lv_less (version qe73_no_mpi) [7, 3]
   \<and> fst (configure_step qe73_no_mpi no_roots (init_state [] None)) =
       Inl (EasyBuildError ''ScaLAPACK support requires MPI'')"
proof -
  have a: "with_scalapack (cfg qe73_no_mpi)" and b: "\<not> usempi qe73_no_mpi"
    and c: "\<not> lv_less (version qe73_no_mpi) [7, 3]"
    by (simp_all add: example_defs)
  from configure_step_scalapack_requires_mpi [OF a b, of no_roots "init_state [] None"] a b c
  show ?thesis by simp
qed

text \<open>
  Claim C6: with ScaLAPACK switched off and ELPA present among the dependencies, the
  configure step fails with an \<^verbatim>\<open>EasyBuildError\<close>, whatever the other inputs: the one
  of the ELPA rule, or the one of the minimum version when the version is below 7.3.
\<close>

theorem configure_step_elpa_requires_scalapack:
  assumes "\<not> with_scalapack (cfg self)" and "has_root roots ''ELPA''"
  shows "fst (configure_step self roots s) =
     Inl (EasyBuildError
       (if lv_less (version self) [7, 3]
        then ''EB QuantumEspresso cmake is implemented for versions >= 7.3''
        else ''ELPA support requires ScaLAPACK''))"
  using assms
  by (simp add: configure_step_def add_toolchains_opts_def add_mpi_def add_openmp_def
      add_cuda_def add_libraries_def add_scalapack_def add_fox_def add_libxc_def add_elpa_def
      step_defs)

theorem configure_step_elpa_requires_scalapack_witness:
  "\<not> with_scalapack (cfg qe73_no_scalapack) \<and> has_root elpa_roots ''ELPA''
   \<and> fst (configure_step qe73_no_scalapack elpa_roots (init_state [] None)) =
       Inl (EasyBuildError ''ELPA support requires ScaLAPACK'')"
proof -
  have a: "\<not> with_scalapack (cfg qe73_no_scalapack)" and b: "has_root elpa_roots ''ELPA''"
    by (simp_all add: example_defs)
  from configure_step_elpa_requires_scalapack [OF a b, of "init_state [] None"] a b
  show ?thesis by (simp add: example_defs)
qed

text \<open>
  Claim C10: with the D3Q plugin requested, the configure step raises an
  \<^verbatim>\<open>EasyBuildError\<close> on every version that passes the minimum version check: such a
  version is not below 7.3, so it is above 7.0, where the D3Q rule raises, unless an
  earlier rule has raised before.
\<close>

theorem configure_step_d3q_rejected:
  assumes "with_d3q (cfg self)" and "\<not> lv_less (version self) [7, 3]"
  shows "lv_less [7, 0] (version self)
       \<and> (\<exists>msg \<in> set d3q_errors. fst (configure_step self roots s) = Inl (EasyBuildError msg))"
proof -
  let ?s1 = "snd (add_toolchains_opts self s)"
  let ?s2 = "snd (add_libraries self roots ?s1)"
  from assms have d: "lv_less [7, 0] (version self)" by (simp add: lv_gate)
  have c: "fst (configure_step self roots s) =
     (case fst (add_libraries self roots ?s1) of Inl e \<Rightarrow> Inl e
      | Inr u \<Rightarrow> (case fst (add_plugins self ?s2) of Inl e \<Rightarrow> Inl e | Inr u \<Rightarrow> Inr ()))"
    using assms(2)
    by (simp add: configure_step_def fst_seq snd_seq add_toolchains_opts_ok
        cfg_update_configopts_def link_workaround_def split: sum.splits)
  from add_libraries_outcome [of self roots ?s1] add_plugins_d3q [OF assms(1) d, of ?s2]
  have "\<exists>msg \<in> set d3q_errors. fst (configure_step self roots s) = Inl (EasyBuildError msg)"
    unfolding c d3q_errors_def by auto
  with d show ?thesis by simp
qed

theorem configure_step_d3q_rejected_witness:
  "with_d3q (cfg qe74_d3q) \<and> \<not> lv_less (version qe74_d3q) [7, 3]
   \<and> lv_less [7, 0] (version qe74_d3q)
   \<and> fst (configure_step qe74_d3q no_roots (init_state [] None)) =
       Inl (EasyBuildError ''D3Q is not supported in QE 7.0+'')"
proof -
  have a: "with_d3q (cfg qe74_d3q)" and b: "\<not> lv_less (version qe74_d3q) [7, 3]"
    by (simp_all add: example_defs)
  have c: "fst (configure_step qe74_d3q no_roots (init_state [] None)) =
       Inl (EasyBuildError ''D3Q is not supported in QE 7.0+'')"
    by (simp add: configure_step_def rule_defs step_defs example_defs)
  from configure_step_d3q_rejected [OF a b, of no_roots "init_state [] None"] a b c
  show ?thesis by simp
qed

section \<open>The test hook\<close>

subsection \<open>Substrings and the failure scan\<close>

lemma startswith_iff: "startswith p s \<longleftrightarrow> (\<exists>v. s = p @ v)"
  by (induction p s rule: startswith.induct) auto

lemma contains_iff: "contains p s \<longleftrightarrow> (\<exists>u v. s = u @ p @ v)"
proof (induction s)
  case Nil
  then show ?case by simp
next
  case (Cons c cs)
  show ?case
  proof
    assume "contains p (c # cs)"
    then consider "startswith p (c # cs)" | "contains p cs" by auto
    then show "\<exists>u v. c # cs = u @ p @ v"
    proof cases
      case 1
      then obtain v where "c # cs = p @ v" by (auto simp: startswith_iff)
      then have "c # cs = [] @ p @ v" by simp
      then show ?thesis by blast
    next
      case 2
      with Cons obtain u v where "cs = u @ p @ v" by blast
      then have "c # cs = (c # u) @ p @ v" by simp
      then show ?thesis by blast
    qed
  next
    assume "\<exists>u v. c # cs = u @ p @ v"
    then obtain u v where uv: "c # cs = u @ p @ v" by blast
    show "contains p (c # cs)"
    proof (cases u)
      case Nil
      with uv have "startswith p (c # cs)" by (auto simp: startswith_iff)
      then show ?thesis by simp
    next
      case (Cons d u')
      with uv have "cs = u' @ p @ v" by simp
      with Cons.IH have "contains p cs" by blast
      then show ?thesis by simp
    qed
  qed
qed

lemma allowed_failure_iff:
  "allowed_failure allow_fail line \<longleftrightarrow> (\<exists>a \<in> set allow_fail. contains a line)"
  by (induction allow_fail) auto

lemma scan_failures_filter:
  "scan_failures allow_fail ls failures =
     failures @ filter (\<lambda>l. contains ''***Failed'' l \<and> \<not> allowed_failure allow_fail l) ls"
  by (induction ls arbitrary: failures) auto

lemmas text_defs = failed_epw_def failed_pw_def out_low_rate_def out_two_failures_def
  out_no_summary_def splitlines_def is_linebreak_def

lemmas pattern_defs = match_summary_def spaces0_def spaces1_def digits1_def literal_def
  is_digit_def is_blank_def

text \<open>
  Claim C4: a line with the failure marker is recorded in \<^verbatim>\<open>failures\<close> if and only
  if no rule of the allow list occurs in it; a rule occurs in a line when the line is some
  text, the rule character by character, and some text; and the recorded failures are the
  same for two allow lists with the same rules, whatever their order.
\<close>

theorem scan_failures_unallowed:
  "(line \<in> set (scan_failures allow_fail (splitlines out) []) \<longleftrightarrow>
      line \<in> set (splitlines out) \<and> (\<exists>u v. line = u @ ''***Failed'' @ v)
      \<and> \<not> (\<exists>a \<in> set allow_fail. \<exists>u v. line = u @ a @ v))
   \<and> (set allow_fail' = set allow_fail \<longrightarrow>
        scan_failures allow_fail' (splitlines out) [] =
        scan_failures allow_fail (splitlines out) [])"
proof -
  have a: "allowed_failure xs l \<longleftrightarrow> (\<exists>a \<in> set xs. \<exists>u v. l = u @ a @ v)" for xs l
    by (simp add: allowed_failure_iff contains_iff)
  have "set allow_fail' = set allow_fail \<Longrightarrow>
      allowed_failure allow_fail' l = allowed_failure allow_fail l" for l
    by (simp add: a)
  then show ?thesis
    by (auto simp add: scan_failures_filter a contains_iff)
qed

theorem scan_failures_unallowed_witness:
  "scan_failures [''--epw_'', ''--HP_'', ''--pw_SCF''] (splitlines out_two_failures) [] = [failed_pw]
   \<and> failed_pw \<in> set (splitlines out_two_failures)
   \<and> (\<exists>u v. failed_pw = u @ ''***Failed'' @ v)
   \<and> \<not> (\<exists>a \<in> set [''--epw_'', ''--HP_'', ''--pw_SCF'']. \<exists>u v. failed_pw = u @ a @ v)
   \<and> set [''--pw_SCF'', ''--epw_'', ''--HP_'', ''--epw_''] = set [''--epw_'', ''--HP_'', ''--pw_SCF'']
   \<and> scan_failures [''--pw_SCF'', ''--epw_'', ''--HP_'', ''--epw_''] (splitlines out_two_failures) []
       = [failed_pw]"
proof -
  let ?allow = "[''--epw_'', ''--HP_'', ''--pw_SCF'']"
  let ?allow' = "[''--pw_SCF'', ''--epw_'', ''--HP_'', ''--epw_'']"
  have a: "scan_failures ?allow (splitlines out_two_failures) [] = [failed_pw]"
    by (simp add: text_defs)
  have b: "set ?allow' = set ?allow" by auto
  from scan_failures_unallowed [of failed_pw ?allow out_two_failures ?allow'] a b
  show ?thesis by simp
qed

subsection \<open>What the summary pattern matches\<close>

lemma takeWhile_run:
  assumes "\<forall>x \<in> set xs. P x" and "ys = [] \<or> \<not> P (hd ys)"
  shows "takeWhile P (xs @ ys) = xs"
proof -
  from assms(2) have "takeWhile P ys = []" by (cases ys) auto
  with assms(1) show ?thesis by (simp add: takeWhile_append2)
qed

lemma dropWhile_run:
  assumes "\<forall>x \<in> set xs. P x" and "ys = [] \<or> \<not> P (hd ys)"
  shows "dropWhile P (xs @ ys) = ys"
proof -
  from assms(2) have "dropWhile P ys = ys" by (cases ys) auto
  with assms(1) show ?thesis by (simp add: dropWhile_append2)
qed

lemma run_end: "dropWhile P s = [] \<or> \<not> P (hd (dropWhile P s))"
  using hd_dropWhile [of P s] by blast

lemma blank_run: "takeWhile is_blank s = replicate (length (takeWhile is_blank s)) (CHR '' '')"
proof -
  have "\<forall>y \<in> set (takeWhile is_blank s). y = CHR '' ''"
    using set_takeWhileD [of _ is_blank s] by (auto simp add: is_blank_def)
  then show ?thesis by (simp add: replicate_length_same)
qed

lemma spaces0_iff:
  "spaces0 s = r \<longleftrightarrow>
     (\<exists>a. s = replicate a (CHR '' '') @ r \<and> (r = [] \<or> \<not> is_blank (hd r)))"
proof
  assume "spaces0 s = r"
  then have r: "dropWhile is_blank s = r" by (simp add: spaces0_def)
  have "s = takeWhile is_blank s @ dropWhile is_blank s" by simp
  with r blank_run [of s]
  have "s = replicate (length (takeWhile is_blank s)) (CHR '' '') @ r" by simp
  moreover from r run_end [of is_blank s] have "r = [] \<or> \<not> is_blank (hd r)" by simp
  ultimately show "\<exists>a. s = replicate a (CHR '' '') @ r \<and> (r = [] \<or> \<not> is_blank (hd r))"
    by blast
next
  assume "\<exists>a. s = replicate a (CHR '' '') @ r \<and> (r = [] \<or> \<not> is_blank (hd r))"
  then obtain a where "s = replicate a (CHR '' '') @ r" and "r = [] \<or> \<not> is_blank (hd r)"
    by blast
  then show "spaces0 s = r"
    by (simp add: spaces0_def dropWhile_run is_blank_def)
qed

lemma spaces1_iff:
  "spaces1 s = Some r \<longleftrightarrow>
     (\<exists>b. s = replicate (Suc b) (CHR '' '') @ r \<and> (r = [] \<or> \<not> is_blank (hd r)))"
proof (cases s)
  case Nil
  then show ?thesis by (simp add: spaces1_def)
next
  case (Cons c cs)
  show ?thesis
  proof (cases "is_blank c")
    case False
    with Cons show ?thesis by (auto simp add: spaces1_def is_blank_def)
  next
    case True
    then have c: "c = CHR '' ''" by (simp add: is_blank_def)
    from Cons True have "spaces1 s = Some r \<longleftrightarrow> spaces0 cs = r"
      by (simp add: spaces1_def spaces0_def)
    also have "\<dots> \<longleftrightarrow>
        (\<exists>b. cs = replicate b (CHR '' '') @ r \<and> (r = [] \<or> \<not> is_blank (hd r)))"
      by (rule spaces0_iff)
    also have "\<dots> \<longleftrightarrow>
        (\<exists>b. s = replicate (Suc b) (CHR '' '') @ r \<and> (r = [] \<or> \<not> is_blank (hd r)))"
      using Cons c by simp
    finally show ?thesis .
  qed
qed

lemma digits1_iff:
  "digits1 s = Some (d, r) \<longleftrightarrow>
     s = d @ r \<and> d \<noteq> [] \<and> (\<forall>x \<in> set d. is_digit x) \<and> (r = [] \<or> \<not> is_digit (hd r))"
proof
  assume "digits1 s = Some (d, r)"
  then have d: "takeWhile is_digit s = d" and r: "dropWhile is_digit s = r" and "d \<noteq> []"
    by (auto simp add: digits1_def split: if_splits)
  have "s = takeWhile is_digit s @ dropWhile is_digit s" by simp
  with d r have "s = d @ r" by simp
  moreover from d have "\<forall>x \<in> set d. is_digit x" using set_takeWhileD [of _ is_digit s] by auto
  moreover from r run_end [of is_digit s] have "r = [] \<or> \<not> is_digit (hd r)" by simp
  ultimately show "s = d @ r \<and> d \<noteq> [] \<and> (\<forall>x \<in> set d. is_digit x)
      \<and> (r = [] \<or> \<not> is_digit (hd r))"
    using \<open>d \<noteq> []\<close> by simp
next
  assume "s = d @ r \<and> d \<noteq> [] \<and> (\<forall>x \<in> set d. is_digit x) \<and> (r = [] \<or> \<not> is_digit (hd r))"
  then have s: "s = d @ r" and n: "d \<noteq> []" and a: "\<forall>x \<in> set d. is_digit x"
    and e: "r = [] \<or> \<not> is_digit (hd r)"
    by blast+
  from a e have "takeWhile is_digit (d @ r) = d" by (rule takeWhile_run)
  moreover from a e have "dropWhile is_digit (d @ r) = r" by (rule dropWhile_run)
  ultimately show "digits1 s = Some (d, r)"
    using s n by (simp add: digits1_def)
qed

lemma literal_iff: "literal p s = Some r \<longleftrightarrow> s = p @ r"
  by (auto simp add: literal_def startswith_iff)


text \<open>
  The texts that start with the summary pattern, and the groups: spaces, digits,
  \<^verbatim>\<open>% tests passed,\<close>, at least one space, digits, at least one space,
  \<^verbatim>\<open>tests failed out of\<close>, at least one space, and digits up to the end of the
  text or a character that is not a digit.
\<close>

lemma match_summary_iff:
  "match_summary s = Some (p, f, t) \<longleftrightarrow>
     (\<exists>a b c d r.
        s = replicate a (CHR '' '') @ p @ ''% tests passed,'' @ replicate (Suc b) (CHR '' '')
            @ f @ replicate (Suc c) (CHR '' '') @ ''tests failed out of''
            @ replicate (Suc d) (CHR '' '') @ t @ r
        \<and> p \<noteq> [] \<and> (\<forall>x \<in> set p. is_digit x)
        \<and> f \<noteq> [] \<and> (\<forall>x \<in> set f. is_digit x)
        \<and> t \<noteq> [] \<and> (\<forall>x \<in> set t. is_digit x)
        \<and> (r = [] \<or> \<not> is_digit (hd r)))"
  (is "?L \<longleftrightarrow> ?R")
proof
  assume ?L
  then obtain s1 s2 s3 s4 s5 s6 s7 s8 where
    1: "digits1 (spaces0 s) = Some (p, s1)" and
    2: "literal ''% tests passed,'' s1 = Some s2" and
    3: "spaces1 s2 = Some s3" and
    4: "digits1 s3 = Some (f, s4)" and
    5: "spaces1 s4 = Some s5" and
    6: "literal ''tests failed out of'' s5 = Some s6" and
    7: "spaces1 s6 = Some s7" and
    8: "digits1 s7 = Some (t, s8)"
    by (auto simp add: match_summary_def bind_eq_Some_conv)
  obtain a where a: "s = replicate a (CHR '' '') @ spaces0 s"
    using spaces0_iff [of s "spaces0 s"] by blast
  from 3 obtain b where b: "s2 = replicate (Suc b) (CHR '' '') @ s3"
    unfolding spaces1_iff by blast
  from 5 obtain c where c: "s4 = replicate (Suc c) (CHR '' '') @ s5"
    unfolding spaces1_iff by blast
  from 7 obtain d where d: "s6 = replicate (Suc d) (CHR '' '') @ s7"
    unfolding spaces1_iff by blast
  from 1 have p: "spaces0 s = p @ s1" "p \<noteq> []" "\<forall>x \<in> set p. is_digit x"
    unfolding digits1_iff by blast+
  from 4 have f: "s3 = f @ s4" "f \<noteq> []" "\<forall>x \<in> set f. is_digit x"
    unfolding digits1_iff by blast+
  from 8 have t: "s7 = t @ s8" "t \<noteq> []" "\<forall>x \<in> set t. is_digit x"
    "s8 = [] \<or> \<not> is_digit (hd s8)"
    unfolding digits1_iff by blast+
  from 2 have l1: "s1 = ''% tests passed,'' @ s2" unfolding literal_iff .
  from 6 have l2: "s5 = ''tests failed out of'' @ s6" unfolding literal_iff .
  have "s = replicate a (CHR '' '') @ p @ ''% tests passed,'' @ replicate (Suc b) (CHR '' '')
            @ f @ replicate (Suc c) (CHR '' '') @ ''tests failed out of''
            @ replicate (Suc d) (CHR '' '') @ t @ s8"
    by (subst a, simp only: p(1) l1 b f(1) c l2 d t(1) append_assoc)
  with p(2,3) f(2,3) t(2,3,4) show ?R by blast
next
  assume ?R
  then obtain a b c d r where
    s: "s = replicate a (CHR '' '') @ p @ ''% tests passed,'' @ replicate (Suc b) (CHR '' '')
            @ f @ replicate (Suc c) (CHR '' '') @ ''tests failed out of''
            @ replicate (Suc d) (CHR '' '') @ t @ r"
    and p: "p \<noteq> []" "\<forall>x \<in> set p. is_digit x"
    and f: "f \<noteq> []" "\<forall>x \<in> set f. is_digit x"
    and t: "t \<noteq> []" "\<forall>x \<in> set t. is_digit x"
    and r: "r = [] \<or> \<not> is_digit (hd r)"
    by blast
  have nb: "\<not> is_blank (hd (x @ y))" if "x \<noteq> []" "\<forall>c \<in> set x. is_digit c" for x y
    using that by (cases x) (auto simp add: is_blank_def is_digit_def)
  let ?s7 = "t @ r"
  let ?s6 = "replicate (Suc d) (CHR '' '') @ ?s7"
  let ?s5 = "''tests failed out of'' @ ?s6"
  let ?s4 = "replicate (Suc c) (CHR '' '') @ ?s5"
  let ?s3 = "f @ ?s4"
  let ?s2 = "replicate (Suc b) (CHR '' '') @ ?s3"
  let ?s1 = "''% tests passed,'' @ ?s2"
  have 0: "spaces0 s = p @ ?s1"
    unfolding spaces0_iff using s nb [OF p] by blast
  have 1: "digits1 (p @ ?s1) = Some (p, ?s1)"
    unfolding digits1_iff using p by (simp add: is_digit_def)
  have 2: "literal ''% tests passed,'' ?s1 = Some ?s2"
    unfolding literal_iff by simp
  have 3: "spaces1 ?s2 = Some ?s3"
    unfolding spaces1_iff using nb [OF f] by blast
  have 4: "digits1 ?s3 = Some (f, ?s4)"
    unfolding digits1_iff using f by (simp add: is_digit_def)
  have 5: "spaces1 ?s4 = Some ?s5"
    unfolding spaces1_iff by (rule exI [of _ c]) (simp add: is_blank_def)
  have 6: "literal ''tests failed out of'' ?s5 = Some ?s6"
    unfolding literal_iff by simp
  have 7: "spaces1 ?s6 = Some ?s7"
    unfolding spaces1_iff using nb [OF t] by blast
  have 8: "digits1 ?s7 = Some (t, r)"
    unfolding digits1_iff using t r by simp
  show ?L
    unfolding match_summary_def 0 by (simp only: 1 2 3 4 5 6 7 8 Option.bind.simps prod.case)
qed

subsection \<open>The summary pattern reads one line\<close>

lemma dropWhile_ext: "\<not> P c \<Longrightarrow> dropWhile P (l @ c # r) = dropWhile P l @ c # r"
  by (induction l) auto

lemma takeWhile_ext: "\<not> P c \<Longrightarrow> takeWhile P (l @ c # r) = takeWhile P l"
  by (induction l) auto

lemma spaces0_ext: "\<not> is_blank c \<Longrightarrow> spaces0 (l @ c # r) = spaces0 l @ c # r"
  by (simp add: spaces0_def dropWhile_ext)

lemma spaces1_ext:
  "\<not> is_blank c \<Longrightarrow> spaces1 (l @ c # r) = map_option (\<lambda>t. t @ c # r) (spaces1 l)"
  by (cases l) (simp_all add: spaces1_def dropWhile_ext)

lemma digits1_ext:
  "\<not> is_digit c \<Longrightarrow>
     digits1 (l @ c # r) = map_option (\<lambda>(d, t). (d, t @ c # r)) (digits1 l)"
  by (simp add: digits1_def dropWhile_ext takeWhile_ext)

lemma startswith_ext: "c \<notin> set p \<Longrightarrow> startswith p (l @ c # r) = startswith p l"
  by (induction p l rule: startswith.induct) auto

lemma startswith_length: "startswith p l \<Longrightarrow> length p \<le> length l"
  by (induction p l rule: startswith.induct) auto

lemma literal_ext:
  "c \<notin> set p \<Longrightarrow> literal p (l @ c # r) = map_option (\<lambda>t. t @ c # r) (literal p l)"
  by (simp add: literal_def startswith_ext startswith_length)

lemma nl_not_blank: "\<not> is_blank (CHR 0x0A)"
  by (simp add: is_blank_def)

lemma nl_not_digit: "\<not> is_digit (CHR 0x0A)"
  by (simp add: is_digit_def)

lemma match_summary_ext: "match_summary (l @ CHR 0x0A # r) = match_summary l"
  by (simp add: match_summary_def spaces0_ext spaces1_ext digits1_ext literal_ext
      nl_not_blank nl_not_digit bind_map_option comp_def split_def)

lemma match_summary_line:
  "match_summary s = match_summary (takeWhile (\<lambda>c. c \<noteq> CHR 0x0A) s)"
proof (cases "dropWhile (\<lambda>c. c \<noteq> CHR 0x0A) s")
  case Nil
  then have "takeWhile (\<lambda>c. c \<noteq> CHR 0x0A) s = s"
    by (simp add: takeWhile_eq_all_conv)
  then have "match_summary (takeWhile (\<lambda>c. c \<noteq> CHR 0x0A) s) = match_summary s"
    by (rule arg_cong)
  then show ?thesis by (rule sym)
next
  case (Cons d r)
  then have "dropWhile (\<lambda>c. c \<noteq> CHR 0x0A) s \<noteq> []" by simp
  then have "\<not> hd (dropWhile (\<lambda>c. c \<noteq> CHR 0x0A) s) \<noteq> CHR 0x0A"
    by (rule hd_dropWhile)
  with Cons have d: "d = CHR 0x0A" by simp
  have "takeWhile (\<lambda>c. c \<noteq> CHR 0x0A) s @ dropWhile (\<lambda>c. c \<noteq> CHR 0x0A) s = s"
    by (rule takeWhile_dropWhile_id)
  with Cons d have "s = takeWhile (\<lambda>c. c \<noteq> CHR 0x0A) s @ CHR 0x0A # r" by simp
  then have "match_summary s = match_summary (takeWhile (\<lambda>c. c \<noteq> CHR 0x0A) s @ CHR 0x0A # r)"
    by simp
  then show ?thesis by (simp only: match_summary_ext)
qed

lemma split_nl_hd: "\<exists>ls. split_nl s = takeWhile (\<lambda>c. c \<noteq> CHR 0x0A) s # ls"
proof (induction s)
  case Nil
  then show ?case by simp
next
  case (Cons c cs)
  then obtain ls where "split_nl cs = takeWhile (\<lambda>c. c \<noteq> CHR 0x0A) cs # ls" by blast
  then show ?case by simp
qed

lemma match_summary_Nil: "match_summary [] = None"
  by (simp add: match_summary_def spaces0_def digits1_def)

lemma match_summary_nl: "match_summary (CHR 0x0A # cs) = None"
  using match_summary_ext [of "[]" cs] by (simp add: match_summary_Nil)

lemma re_search_lines:
  "re_search bol s =
     (if bol then first_summary (split_nl s) else first_summary (tl (split_nl s)))"
proof (induction s arbitrary: bol)
  case Nil
  then show ?case by (simp add: match_summary_Nil)
next
  case (Cons c cs)
  show ?case
  proof (cases "c = CHR 0x0A")
    case True
    then show ?thesis by (simp add: Cons.IH match_summary_nl match_summary_Nil)
  next
    case False
    obtain ls where ls: "split_nl cs = takeWhile (\<lambda>c. c \<noteq> CHR 0x0A) cs # ls"
      using split_nl_hd by blast
    have m: "match_summary (c # takeWhile (\<lambda>c. c \<noteq> CHR 0x0A) cs) = match_summary (c # cs)"
      using match_summary_line [of "c # cs"] False by simp
    from False ls m show ?thesis by (simp add: Cons.IH split: option.splits)
  qed
qed

lemma first_summary_None:
  "first_summary ls = None \<longleftrightarrow> (\<forall>l \<in> set ls. match_summary l = None)"
  by (induction ls) (auto split: option.splits)

subsection \<open>The decision\<close>

text \<open>The test hook is the decision on the output of the harness, unless the number of
  processes per test is zero.\<close>

lemma test_step_evaluate:
  assumes "test_suite_nprocs (cfg self) \<noteq> 0"
  shows "test_step self run_cmd =
     evaluate (cfg self)
       (run_cmd (join '' ''
          [''ctest'',
           ''-j'' @ show_int (max 1 (parallel (cfg self) div test_suite_nprocs (cfg self))),
           ''--output-on-failure'']))"
  using assms by (simp add: test_step_def Let_def)

text \<open>
  Claim C7: when no line of the harness output (no piece of the text between
  \<^verbatim>\<open>\n\<close> characters) starts with the summary pattern, the test hook raises the
  \<^verbatim>\<open>EasyBuildError\<close> "Failed to parse test suite output", whatever the allow list, the
  thresholds and the other lines are.
\<close>

theorem evaluate_no_summary_line:
  assumes "\<forall>l \<in> set (split_nl out). match_summary l = None"
  shows "evaluate c out = Inl (EasyBuildError ''Failed to parse test suite output'')"
proof -
  from assms have "re_search True out = None"
    by (simp add: re_search_lines first_summary_None)
  then show ?thesis by (simp add: evaluate_def)
qed

theorem evaluate_no_summary_line_witness:
  "split_nl out_no_summary = [''Test project /build'', ''No tests were found!!!'']
   \<and> match_summary ''Test project /build'' = None
   \<and> match_summary ''No tests were found!!!'' = None
   \<and> evaluate default_cfg out_no_summary =
       Inl (EasyBuildError ''Failed to parse test suite output'')"
proof -
  have a: "split_nl out_no_summary = [''Test project /build'', ''No tests were found!!!'']"
    by (simp add: text_defs)
  have b: "match_summary ''Test project /build'' = None"
    and c: "match_summary ''No tests were found!!!'' = None"
    by (simp_all add: pattern_defs)
  from a b c have "\<forall>l \<in> set (split_nl out_no_summary). match_summary l = None" by simp
  from evaluate_no_summary_line [OF this, of default_cfg] a b c show ?thesis by simp
qed

text \<open>
  Claim C3: when the summary line of the harness output (the first line that starts with
  the summary pattern) reports a pass rate below the threshold, the test hook raises the
  error of the rate, whatever the allow list and the maximum of failures are: the rate is
  the one of the summary line, and the failure scan has no part in it.
\<close>

theorem evaluate_rate_below_threshold:
  assumes "first_summary (split_nl out) = Some (g_perc, g_failed, g_total)"
    and "of_nat (py_int g_perc) / 100 < test_suite_threshold c"
  shows "evaluate c out =
     Inl (RateBelowThreshold (test_suite_threshold c) (of_nat (py_int g_perc) / 100))"
proof -
  from assms(1) have "re_search True out = Some (g_perc, g_failed, g_total)"
    by (simp add: re_search_lines)
  with assms(2) show ?thesis by (simp add: evaluate_def Let_def)
qed

theorem evaluate_rate_below_threshold_witness:
  "first_summary (split_nl out_low_rate) = Some (''74'', ''124'', ''481'')
   \<and> scan_failures (test_suite_allow_failures default_cfg) (splitlines out_low_rate) [] = []
   \<and> test_suite_max_failed default_cfg = 0
   \<and> evaluate default_cfg out_low_rate = Inl (RateBelowThreshold (97 / 100) (74 / 100))"
proof -
  have a: "first_summary (split_nl out_low_rate) = Some (''74'', ''124'', ''481'')"
    by (simp add: text_defs pattern_defs)
  have p: "py_int ''74'' = 74"
    by (simp add: py_int_def digit_val_def)
  have b: "of_nat (py_int ''74'') / 100 < test_suite_threshold default_cfg"
    by (simp add: p default_cfg_def)
  have s: "scan_failures (test_suite_allow_failures default_cfg) (splitlines out_low_rate) [] = []"
    by (simp add: text_defs default_cfg_def)
  from evaluate_rate_below_threshold [OF a b] a s p show ?thesis
    by (simp add: default_cfg_def)
qed

section \<open>The sanity check hook\<close>

subsection \<open>The hook derives from the catalog\<close>

lemma if_append: "(if c then b @ xs else b) = b @ (if c then xs else [])"
  by simp

lemma sanity_check_bins_derive: "sanity_check_bins targets b0 = derive targets b0"
  unfolding sanity_check_bins_def derive_def catalog_def
  by (simp only: if_append Let_def append_assoc list.map concat.simps selected_def entry_bins_def
      fst_conv snd_conv append_Nil2 length_0_conv simp_thms disj_assoc)


text \<open>
  Claim C2, as stated: the empty list of targets and the single token \<^verbatim>\<open>all\<close> derive
  the same basenames, those of every entry of the catalog. It fails: the code knows no
  target \<^verbatim>\<open>all\<close>, so this list of targets selects no entry, while the empty list
  selects them all.
\<close>

theorem sanity_check_bins_all_token:
  "sanity_check_bins [''all''] [] = []
   \<and> ''cp.x'' \<in> set (sanity_check_bins [] [])
   \<and> sanity_check_bins [] [] \<noteq> sanity_check_bins [''all''] []"
proof -
  have a: "sanity_check_bins [''all''] [] = []"
    by (simp add: sanity_check_bins_derive derive_def selected_def catalog_def entry_bins_def)
  have b: "''cp.x'' \<in> set (sanity_check_bins [] [])"
    by (simp add: sanity_check_bins_derive derive_def selected_def catalog_def entry_bins_def)
  from a b show ?thesis by auto
qed

text \<open>
  Claim C2, amended: with no target, and with the single target \<^verbatim>\<open>all_currents\<close>
  (the token of the code that stands for all targets), the hook yields the same list: the
  basenames that \<^verbatim>\<open>self.check_bins\<close> held before, followed by the basenames of every
  entry of the catalog.
\<close>

theorem sanity_check_bins_all:
  "sanity_check_bins [] extra = sanity_check_bins [''all_currents''] extra
   \<and> sanity_check_bins [] extra = extra @ concat (map entry_bins catalog)"
  by (simp add: sanity_check_bins_derive derive_def selected_def)

theorem sanity_check_bins_all_witness:
  "sanity_check_bins [] [''gipaw.x''] = sanity_check_bins [''all_currents''] [''gipaw.x'']
   \<and> length (sanity_check_bins [] [''gipaw.x'']) = 87"
proof -
  from sanity_check_bins_all [of "[''gipaw.x'']"]
  have a: "sanity_check_bins [] [''gipaw.x''] = sanity_check_bins [''all_currents''] [''gipaw.x'']"
    and b: "sanity_check_bins [] [''gipaw.x''] = [''gipaw.x''] @ concat (map entry_bins catalog)"
    by blast+
  have "length ([''gipaw.x''] @ concat (map entry_bins catalog)) = 87"
    by (simp add: catalog_def entry_bins_def)
  with a b show ?thesis by simp
qed

subsection \<open>The umbrella target\<close>

lemma set_derive:
  "set (derive targets extra) =
     set extra \<union> (\<Union>e \<in> set catalog. if selected targets e then set (entry_bins e) else {})"
  by (auto simp add: derive_def split: if_splits)

lemma selected_pwall:
  assumes "e \<in> set catalog" and "selected [t] e"
    and "t \<in> set [''ph'', ''pp'', ''pw'', ''neb'', ''pwcond'']"
  shows "selected [''pwall''] e"
  using assms by (auto simp add: selected_def catalog_def)

lemma derive_pwall:
  assumes "t \<in> set [''ph'', ''pp'', ''pw'', ''neb'', ''pwcond'']"
  shows "set (derive [t] extra) \<subseteq> set (derive [''pwall''] extra)"
proof
  fix x
  assume "x \<in> set (derive [t] extra)"
  then consider "x \<in> set extra"
    | e where "e \<in> set catalog" "selected [t] e" "x \<in> set (entry_bins e)"
    by (auto simp add: set_derive split: if_splits)
  then show "x \<in> set (derive [''pwall''] extra)"
  proof cases
    case 1
    then show ?thesis by (simp add: set_derive)
  next
    case 2
    with assms have "selected [''pwall''] e" by (simp only: selected_pwall)
    with 2 show ?thesis by (auto simp add: set_derive)
  qed
qed

text \<open>
  Claim C8: the basenames derived for the single target \<^verbatim>\<open>pwall\<close> include the
  basenames derived for each of the single targets \<^verbatim>\<open>ph\<close>, \<^verbatim>\<open>pp\<close>,
  \<^verbatim>\<open>pw\<close>, \<^verbatim>\<open>neb\<close> and \<^verbatim>\<open>pwcond\<close>, whatever \<^verbatim>\<open>self.check_bins\<close> held
  before (the empty list of the claim is one case).
\<close>

theorem sanity_check_bins_pwall:
  "set (sanity_check_bins [''ph''] extra) \<union> set (sanity_check_bins [''pp''] extra)
   \<union> set (sanity_check_bins [''pw''] extra) \<union> set (sanity_check_bins [''neb''] extra)
   \<union> set (sanity_check_bins [''pwcond''] extra)
   \<subseteq> set (sanity_check_bins [''pwall''] extra)"
proof -
  have "set (derive [t] extra) \<subseteq> set (derive [''pwall''] extra)"
    if "t \<in> set [''ph'', ''pp'', ''pw'', ''neb'', ''pwcond'']" for t
    using that by (rule derive_pwall)
  from this [of "''ph''"] this [of "''pp''"] this [of "''pw''"] this [of "''neb''"]
    this [of "''pwcond''"]
  show ?thesis by (simp add: sanity_check_bins_derive)
qed

theorem sanity_check_bins_pwall_witness:
  "''pw.x'' \<in> set (sanity_check_bins [''pw''] [])
   \<and> ''pw.x'' \<in> set (sanity_check_bins [''pwall''] [])"
proof -
  have a: "''pw.x'' \<in> set (sanity_check_bins [''pw''] [])"
    by (simp add: sanity_check_bins_derive derive_def selected_def catalog_def entry_bins_def)
  from sanity_check_bins_pwall [of "[]"] a show ?thesis by blast
qed

subsection \<open>No basename twice\<close>

lemma distinct_select:
  "distinct (concat (map f xs)) \<Longrightarrow> distinct (concat (map (\<lambda>e. if P e then f e else []) xs))"
  by (induction xs) auto

lemma set_select:
  "set (concat (map (\<lambda>e. if P e then f e else []) xs)) \<subseteq> set (concat (map f xs))"
  by (induction xs) auto

lemma distinct_all_bins: "distinct ([''gipaw.x'', ''pw2qmcpack.x''] @ all_bins)"
  by (simp add: all_bins_def catalog_def entry_bins_def)

lemma distinct_derive:
  assumes "distinct (extra @ all_bins)"
  shows "distinct (derive targets extra)"
proof -
  let ?sel = "concat (map (\<lambda>e. if selected targets e then entry_bins e else []) catalog)"
  from assms have "distinct all_bins" by simp
  then have "distinct ?sel" unfolding all_bins_def by (rule distinct_select)
  moreover have "set ?sel \<subseteq> set all_bins" unfolding all_bins_def by (rule set_select)
  ultimately show ?thesis using assms by (auto simp add: derive_def)
qed

lemma distinct_plugin_bins: "distinct (plugin_bins self @ all_bins)"
  using distinct_all_bins by (simp add: plugin_bins_def)


lemma keeps_bins_ret: "keeps_bins (ret x)"
  by (simp add: keeps_bins_def ret_def)

lemma keeps_bins_raise: "keeps_bins (raise e)"
  by (simp add: keeps_bins_def raise_def)

lemma keeps_bins_update: "keeps_bins (cfg_update_configopts arg)"
  by (simp add: keeps_bins_def cfg_update_configopts_def)

lemma keeps_bins_seq:
  assumes "keeps_bins m" and "keeps_bins n"
  shows "keeps_bins (seq m n)"
  unfolding keeps_bins_def
proof
  fix s
  obtain r s1 where ms: "m s = (r, s1)" by (cases "m s")
  with assms(1) have "check_bins s1 = check_bins s"
    unfolding keeps_bins_def by (metis snd_conv)
  moreover from assms(2) have "check_bins (snd (n s1)) = check_bins s1"
    unfolding keeps_bins_def by blast
  ultimately show "check_bins (snd (seq m n s)) = check_bins s"
    using ms by (cases r) (simp_all add: seq_def bind_def)
qed

lemma keeps_bins_link: "keeps_bins (link_workaround self)"
  by (simp add: keeps_bins_def link_workaround_def)

lemmas keeps_intros = keeps_bins_ret keeps_bins_raise keeps_bins_update keeps_bins_seq
  keeps_bins_link

lemma keeps_bins_toolchain: "keeps_bins (add_toolchains_opts self)"
  by (simp add: add_toolchains_opts_def add_mpi_def add_openmp_def add_cuda_def keeps_intros)

lemma keeps_bins_libraries: "keeps_bins (add_libraries self roots)"
  by (simp add: add_libraries_def add_scalapack_def add_fox_def add_libxc_def add_elpa_def
      add_hdf5_def keeps_intros)

lemma keeps_binsD: "keeps_bins m \<Longrightarrow> m s = (r, s') \<Longrightarrow> check_bins s' = check_bins s"
  unfolding keeps_bins_def by (metis snd_conv)

lemma add_plugins_bins:
  assumes "add_plugins self s = (Inr (), s')" and "lv_less [7, 0] (version self)"
  shows "check_bins s' = check_bins s @ plugin_bins self"
  using assms
  by (auto simp add: add_plugins_def add_gipaw_def add_d3q_def add_qmcpack_def plugin_bins_def
      step_defs
      split: if_splits)

lemma configure_step_bins:
  assumes "configure_step self roots s = (Inr (), s')"
  shows "check_bins s' = check_bins s @ plugin_bins self"
proof -
  from assms have v: "\<not> lv_less (version self) [7, 3]"
    by (auto simp add: configure_step_def raise_def split: if_splits)
  let ?rest = "seq (cfg_update_configopts ''-DQE_ENABLE_TEST=ON'')
       (seq (cfg_update_configopts
               (''-DTESTCODE_NPROCS='' @ show_int (test_suite_nprocs (cfg self))))
       (seq (cfg_update_configopts ''-DQE_CLOCK_SECONDS=ON'')
            (link_workaround self)))"
  from assms v have c: "seq (add_toolchains_opts self)
       (seq (add_libraries self roots) (seq (add_plugins self) ?rest)) s = (Inr (), s')"
    by (simp add: configure_step_def)
  from c obtain s1 where t: "add_toolchains_opts self s = (Inr (), s1)"
    and c1: "seq (add_libraries self roots) (seq (add_plugins self) ?rest) s1 = (Inr (), s')"
    by (rule seq_InrD)
  from c1 obtain s2 where l: "add_libraries self roots s1 = (Inr (), s2)"
    and c2: "seq (add_plugins self) ?rest s2 = (Inr (), s')"
    by (rule seq_InrD)
  from c2 obtain s3 where p: "add_plugins self s2 = (Inr (), s3)"
    and r: "?rest s3 = (Inr (), s')"
    by (rule seq_InrD)
  have "keeps_bins ?rest" by (simp add: keeps_intros)
  then have "check_bins s' = check_bins s3" using r by (rule keeps_binsD)
  also from p v have "\<dots> = check_bins s2 @ plugin_bins self"
    by (simp add: add_plugins_bins lv_gate)
  also from keeps_bins_libraries l have "check_bins s2 = check_bins s1" by (rule keeps_binsD)
  also from keeps_bins_toolchain t have "check_bins s1 = check_bins s" by (rule keeps_binsD)
  finally show ?thesis .
qed

lemma inj_path_join_bin: "inj path_join_bin"
  by (simp add: inj_def path_join_bin_def)

text \<open>
  Claim C9: after a configure step that succeeds on the state of \<^verbatim>\<open>__init__\<close>, the
  sanity check hook derives a list without a duplicate, whatever the list of the targets
  is (also with repeated targets and with the umbrella target beside its sub-targets) and
  whatever plugins the configuration has; so do the \<^verbatim>\<open>files\<close> it hands on, and so does
  the hook on the state of \<^verbatim>\<open>__init__\<close> itself.
\<close>

theorem sanity_check_bins_distinct:
  assumes "configure_step self roots (init_state opts env) = (Inr (), s')"
  shows "distinct (sanity_check_bins targets (check_bins s'))
       \<and> distinct (map path_join_bin (sanity_check_bins targets (check_bins s')))
       \<and> distinct (fst (sanity_check_step self s'))
       \<and> distinct (sanity_check_bins targets (check_bins (init_state opts env)))"
proof -
  from distinct_all_bins have "distinct ([] @ all_bins)" by simp
  then have "distinct (derive targets [])" by (rule distinct_derive)
  then have i: "distinct (sanity_check_bins targets (check_bins (init_state opts env)))"
    by (simp add: sanity_check_bins_derive init_state_def)
  from assms have "check_bins s' = plugin_bins self"
    using configure_step_bins [of self roots "init_state opts env" s']
    by (simp add: init_state_def)
  then have d: "distinct (sanity_check_bins ts (check_bins s'))" for ts
    using distinct_derive [OF distinct_plugin_bins, of ts self]
    by (simp add: sanity_check_bins_derive)
  have "distinct (map path_join_bin xs)" if "distinct xs" for xs
    using that inj_path_join_bin by (simp add: distinct_map inj_on_def inj_def)
  with d i show ?thesis by (simp add: sanity_check_step_def Let_def)
qed

theorem sanity_check_bins_distinct_witness:
  "fst (configure_step qe73 no_roots (init_state [] None)) = Inr ()
   \<and> check_bins (snd (configure_step qe73 no_roots (init_state [] None))) = [''gipaw.x'']
   \<and> distinct (sanity_check_bins [''pw'', ''pwall'', ''pw'']
        (check_bins (snd (configure_step qe73 no_roots (init_state [] None)))))"
proof -
  let ?r = "configure_step qe73 no_roots (init_state [] None)"
  have a: "fst ?r = Inr ()" and b: "check_bins (snd ?r) = [''gipaw.x'']"
    by (simp_all add: configure_step_def rule_defs step_defs example_defs link_workaround_def)
  from a have "?r = (Inr (), snd ?r)" by (simp add: prod_eq_iff)
  from sanity_check_bins_distinct [OF this, of "[''pw'', ''pwall'', ''pw'']"] a b
  show ?thesis by simp
qed

end
